theory Spec2Isabelle
  imports Complex_Main
begin

section \<open>Python values and builtins\<close>

text \<open>
  The application is written in Python. Values that flow through dictionaries whose
  entries have different types (a row of a catalog file, a key of a lookup table) are
  modelled by \<open>pyval\<close>. Strings are lists of 8-bit characters; the case functions below
  treat the ASCII letters as the only cased characters. A Python \<open>float\<close> is modelled
  by an exact rational: finite values with exact arithmetic. Rounding and the special
  values \<open>inf\<close> and \<open>nan\<close> are outside the model.
\<close>

datatype pyval = PNone | PStr string | PInt int | PFloat rat

datatype error = ValueError | TypeError | KeyError | ZeroDivisionError

text \<open>
  The conversions between text and floats and the generator of identifiers are Python
  library code; the model takes them as parameters, so that every statement below holds
  for whatever they compute. \<open>float_of_str s = None\<close> is \<open>float(s)\<close> raising
  \<open>ValueError\<close>; \<open>str_of_float\<close> is the text that \<open>csv.writer\<close> writes for a float;
  \<open>uuid4 n\<close> is an identifier handed out by \<open>str(uuid.uuid4())\<close> (identifiers are
  opaque: no statement below depends on their being distinct).
\<close>

record builtins =
  float_of_str :: "string \<Rightarrow> rat option"
  str_of_float :: "rat \<Rightarrow> string"
  uuid4 :: "nat \<Rightarrow> string"

subsection \<open>Strings\<close>

definition upper_letters :: string where
  "upper_letters = ''ABCDEFGHIJKLMNOPQRSTUVWXYZ''"

definition lower_letters :: string where
  "lower_letters = ''abcdefghijklmnopqrstuvwxyz''"

definition is_upper_char :: "char \<Rightarrow> bool" where
  "is_upper_char c = (c \<in> set upper_letters)"

definition is_lower_char :: "char \<Rightarrow> bool" where
  "is_lower_char c = (c \<in> set lower_letters)"

definition lower_char :: "char \<Rightarrow> char" where
  "lower_char c = (case map_of (zip upper_letters lower_letters) c of Some d \<Rightarrow> d | None \<Rightarrow> c)"

definition upper_char :: "char \<Rightarrow> char" where
  "upper_char c = (case map_of (zip lower_letters upper_letters) c of Some d \<Rightarrow> d | None \<Rightarrow> c)"

text \<open>\<open>str.lower()\<close>.\<close>

definition py_lower :: "string \<Rightarrow> string" where
  "py_lower s = map lower_char s"

text \<open>\<open>str.isupper()\<close>: there is a cased character and no cased character is lowercase.\<close>

definition py_isupper :: "string \<Rightarrow> bool" where
  "py_isupper s = (list_ex is_upper_char s \<and> \<not> list_ex is_lower_char s)"

text \<open>\<open>str.startswith(prefix)\<close>.\<close>

definition py_startswith :: "string \<Rightarrow> string \<Rightarrow> bool" where
  "py_startswith s p = (take (length p) s = p)"

text \<open>\<open>str.capitalize()\<close>: the first character uppercased, the others lowercased.\<close>

definition py_capitalize :: "string \<Rightarrow> string" where
  "py_capitalize s = (case s of [] \<Rightarrow> [] | c # cs \<Rightarrow> upper_char c # map lower_char cs)"

text \<open>\<open>str.split(sep)\<close> for a separator of one character.\<close>

fun py_split :: "char \<Rightarrow> string \<Rightarrow> string list" where
  "py_split sep [] = [[]]"
| "py_split sep (c # cs) =
     (if c = sep then [] # py_split sep cs
      else (case py_split sep cs of [] \<Rightarrow> [[c]] | p # ps \<Rightarrow> (c # p) # ps))"

subsection \<open>Integers and floats\<close>

text \<open>
  \<open>int(s)\<close> on a string: surrounding whitespace is dropped, a sign may come first, then
  decimal digits, where single underscores may separate digits.
\<close>

definition is_space_char :: "char \<Rightarrow> bool" where
  "is_space_char c = ((of_char c :: nat) \<in> set [9, 10, 11, 12, 13, 28, 29, 30, 31, 32, 133, 160])"

definition py_strip :: "string \<Rightarrow> string" where
  "py_strip s = rev (dropWhile is_space_char (rev (dropWhile is_space_char s)))"

definition digit_val :: "char \<Rightarrow> nat option" where
  "digit_val c = map_of (zip ''0123456789'' [0 ..< 10]) c"

fun parse_digits :: "nat \<Rightarrow> string \<Rightarrow> nat option" where
  "parse_digits acc [] = Some acc"
| "parse_digits acc [c] =
     (case digit_val c of None \<Rightarrow> None | Some n \<Rightarrow> Some (10 * acc + n))"
| "parse_digits acc (c # d # ds) =
     (if c = CHR ''_''
      then (case digit_val d of None \<Rightarrow> None | Some n \<Rightarrow> parse_digits (10 * acc + n) ds)
      else (case digit_val c of None \<Rightarrow> None | Some n \<Rightarrow> parse_digits (10 * acc + n) (d # ds)))"

definition parse_nat :: "string \<Rightarrow> nat option" where
  "parse_nat s =
     (case s of [] \<Rightarrow> None
      | c # cs \<Rightarrow> (case digit_val c of None \<Rightarrow> None | Some n \<Rightarrow> parse_digits n cs))"

definition int_of_str :: "string \<Rightarrow> int option" where
  "int_of_str s =
     (case py_strip s of [] \<Rightarrow> None
      | c # cs \<Rightarrow>
          if c = CHR ''-'' then map_option (\<lambda>n. - int n) (parse_nat cs)
          else if c = CHR ''+'' then map_option int (parse_nat cs)
          else map_option int (parse_nat (c # cs)))"

text \<open>\<open>int(x)\<close> and \<open>float(x)\<close> on a value; \<open>int\<close> of a float truncates towards zero.\<close>

fun py_int :: "pyval \<Rightarrow> error + int" where
  "py_int (PStr s) = (case int_of_str s of None \<Rightarrow> Inl ValueError | Some i \<Rightarrow> Inr i)"
| "py_int (PInt i) = Inr i"
| "py_int (PFloat r) = Inr (if 0 \<le> r then \<lfloor>r\<rfloor> else \<lceil>r\<rceil>)"
| "py_int PNone = Inl TypeError"

fun py_float :: "builtins \<Rightarrow> pyval \<Rightarrow> error + rat" where
  "py_float b (PStr s) = (case float_of_str b s of None \<Rightarrow> Inl ValueError | Some r \<Rightarrow> Inr r)"
| "py_float b (PInt i) = Inr (of_int i)"
| "py_float b (PFloat r) = Inr r"
| "py_float b PNone = Inl TypeError"

text \<open>\<open>str(n)\<close> for an integer.\<close>

definition digit_char :: "nat \<Rightarrow> char" where
  "digit_char n = ''0123456789'' ! n"

fun str_of_nat :: "nat \<Rightarrow> string" where
  "str_of_nat n = (if n < 10 then [digit_char n] else str_of_nat (n div 10) @ [digit_char (n mod 10)])"

declare str_of_nat.simps [simp del]

definition str_of_int :: "int \<Rightarrow> string" where
  "str_of_int i = (if i < 0 then CHR ''-'' # str_of_nat (nat (- i)) else str_of_nat (nat i))"

text \<open>
  Equality of dictionary keys: numbers are compared by value, whatever their type; a
  string, a number and \<open>None\<close> are never equal to one another.
\<close>

fun py_eq :: "pyval \<Rightarrow> pyval \<Rightarrow> bool" where
  "py_eq PNone PNone = True"
| "py_eq (PStr s) (PStr t) = (s = t)"
| "py_eq (PInt i) (PInt j) = (i = j)"
| "py_eq (PInt i) (PFloat r) = (of_int i = r)"
| "py_eq (PFloat r) (PInt i) = (r = of_int i)"
| "py_eq (PFloat r) (PFloat q) = (r = q)"
| "py_eq _ _ = False"

subsection \<open>Dictionaries\<close>

text \<open>
  A \<open>dict\<close> keeps its keys in insertion order: an association list with distinct keys.
  Assigning to a key that is present replaces the value in place.
\<close>

definition dict_get :: "('k \<times> 'v) list \<Rightarrow> 'k \<Rightarrow> 'v option" where
  "dict_get d k = map_of d k"

fun dict_set :: "'k \<Rightarrow> 'v \<Rightarrow> ('k \<times> 'v) list \<Rightarrow> ('k \<times> 'v) list" where
  "dict_set k v [] = [(k, v)]"
| "dict_set k v ((k', v') # d) =
     (if k' = k then (k, v) # d else (k', v') # dict_set k v d)"

definition dict_del :: "'k \<Rightarrow> ('k \<times> 'v) list \<Rightarrow> ('k \<times> 'v) list" where
  "dict_del k d = filter (\<lambda>kv. fst kv \<noteq> k) d"

text \<open>A dictionary whose keys are Python values of any type, compared by \<open>py_eq\<close>.\<close>

fun pdict_get :: "(pyval \<times> 'v) list \<Rightarrow> pyval \<Rightarrow> 'v option" where
  "pdict_get [] k = None"
| "pdict_get ((k', v) # d) k = (if py_eq k' k then Some v else pdict_get d k)"

fun pdict_set :: "pyval \<Rightarrow> 'v \<Rightarrow> (pyval \<times> 'v) list \<Rightarrow> (pyval \<times> 'v) list" where
  "pdict_set k v [] = [(k, v)]"
| "pdict_set k v ((k', v') # d) =
     (if py_eq k' k then (k', v) # d else (k', v') # pdict_set k v d)"

section \<open>Unit label formatter (template\_filters.py)\<close>

fun format_unit :: "pyval \<Rightarrow> pyval" where
  "format_unit (PStr v) =
     (if py_startswith (py_lower v) ''per'' then
        (let unit_name = drop 3 v;
             unit_name = (if py_isupper unit_name \<or> length unit_name \<le> 2
                          then py_lower unit_name else unit_name)
         in PStr (''1 '' @ unit_name))
      else PStr (''1 '' @ v))"
| "format_unit v = v"

section \<open>Data model\<close>

text \<open>
  The main document \<open>data.json\<close> holds categories (with their work items) and projects.
  A key that a stored object may lack is an \<open>option\<close> field: \<open>None\<close> is the absent key.
  The three line lists of a work item are plain lists. Numbers of the document are
  rationals, whether Python holds them as \<open>int\<close> or as \<open>float\<close>.
\<close>

record work_item_line =
  line_id :: "string option"
  line_name :: pyval
  line_quantity :: rat
  line_unit_price :: rat
  line_subtotal :: rat
  line_unit :: pyval

record work_item =
  wi_id :: "string option"
  wi_name :: "string option"
  unit_of_measure :: "string option"
  basis_quantity :: "rat option"
  labor :: "work_item_line list"
  material :: "work_item_line list"
  equipment :: "work_item_line list"
  labor_total :: "rat option"
  material_total :: "rat option"
  equipment_total :: "rat option"
  total_cost_per_unit :: "rat option"
  contractor_overhead_15_percent :: "rat option"
  sum_total :: "rat option"
  price_per_unit :: "rat option"

record category =
  cat_id :: "string option"
  cat_name :: "string option"
  work_items :: "work_item list option"

record project_line =
  instance_id :: "string option"
  pl_work_item_id :: "string option"
  pl_name :: "string option"
  pl_unit_of_measure :: "string option"
  pl_unit_price :: "rat option"
  pl_quantity :: "rat option"

record project =
  proj_id :: "string option"
  proj_name :: "string option"
  proj_items :: "project_line list option"

record document =
  categories :: "category list option"
  projects :: "project list option"

text \<open>
  A catalog file is a table of text cells, the header row first, as \<open>csv.reader\<close> and
  \<open>csv.writer\<close> see it. The files of the data directory: \<open>data_json\<close> is \<open>None\<close> when
  \<open>data.json\<close> is missing or is not JSON, \<open>csv_files t\<close> is \<open>None\<close> when \<open>t.csv\<close> is
  missing.
\<close>

type_synonym csv_table = "string list list"

type_synonym row = "(string \<times> pyval) list"

record store =
  data_json :: "document option"
  csv_files :: "string \<Rightarrow> csv_table option"

section \<open>data\_manager.py\<close>

subsection \<open>Core data helpers\<close>

definition load_json_data :: "store \<Rightarrow> document" where
  "load_json_data s =
     (case data_json s of
        Some d \<Rightarrow> d
      | None \<Rightarrow> \<lparr>categories = Some [], projects = Some []\<rparr>)"

definition save_json_data :: "document \<Rightarrow> store \<Rightarrow> store" where
  "save_json_data d s = s\<lparr>data_json := Some d\<rparr>"

text \<open>
  \<open>csv.DictReader\<close>: the first row gives the field names; a row becomes the dictionary
  of its cells, a field without a cell gets \<open>None\<close>, and empty rows are passed over.
  Cells beyond the last field name are collected under the key \<open>None\<close>, an entry that
  no function of the application reads; the model leaves it out.
\<close>

definition dict_reader_row :: "string list \<Rightarrow> string list \<Rightarrow> row" where
  "dict_reader_row fieldnames cells =
     (let d = foldl (\<lambda>d (k, v). dict_set k v d) [] (zip fieldnames (map PStr cells))
      in if length cells < length fieldnames
         then foldl (\<lambda>d k. dict_set k PNone d) d (drop (length cells) fieldnames)
         else d)"

definition dict_reader :: "csv_table \<Rightarrow> row list" where
  "dict_reader tbl =
     (case tbl of
        [] \<Rightarrow> []
      | fieldnames # rows \<Rightarrow> map (dict_reader_row fieldnames) (filter (\<lambda>r. r \<noteq> []) rows))"

definition type_key_of :: "string \<Rightarrow> string" where
  "type_key_of item_type = py_capitalize item_type @ ''Type''"

text \<open>The body of the loop of \<open>_load_master_csv\<close>, on the row of index \<open>i\<close>.\<close>

definition standardize_row :: "builtins \<Rightarrow> string \<Rightarrow> nat \<Rightarrow> row \<Rightarrow> error + row" where
  "standardize_row b item_type i row0 =
     (let row1 = (case dict_get row0 ''SerialNo'' of
                    Some v \<Rightarrow> dict_set ''id'' v row0
                  | None \<Rightarrow> dict_set ''id'' (PStr (uuid4 b i)) row0)
      in case py_float b (case dict_get row1 ''Price'' of Some v \<Rightarrow> v | None \<Rightarrow> PFloat 0) of
           Inl e \<Rightarrow> Inl e
         | Inr p \<Rightarrow>
             (let row2 = dict_set ''Price'' (PFloat p) row1;
                  type_key = type_key_of item_type
              in case dict_get row2 type_key of
                   Some v \<Rightarrow> Inr (dict_set ''name'' v (dict_del type_key row2))
                 | None \<Rightarrow>
                     (case dict_get row2 ''Type'' of
                        Some v \<Rightarrow> Inr (dict_set ''name'' v (dict_del ''Type'' row2))
                      | None \<Rightarrow> Inr row2)))"

fun load_rows :: "builtins \<Rightarrow> string \<Rightarrow> nat \<Rightarrow> row list \<Rightarrow> error + row list" where
  "load_rows b item_type i [] = Inr []"
| "load_rows b item_type i (r # rs) =
     (case standardize_row b item_type i r of
        Inl e \<Rightarrow> Inl e
      | Inr r' \<Rightarrow>
          (case load_rows b item_type (Suc i) rs of
             Inl e \<Rightarrow> Inl e
           | Inr rs' \<Rightarrow> Inr (r' # rs')))"

text \<open>
  \<open>_load_master_csv\<close>: a missing file is an empty catalog; a cell \<open>Price\<close> that is
  not a float raises, and nothing catches it.
\<close>

definition load_master_csv :: "builtins \<Rightarrow> string \<Rightarrow> store \<Rightarrow> error + row list" where
  "load_master_csv b item_type s =
     (case csv_files s item_type of
        None \<Rightarrow> Inr []
      | Some tbl \<Rightarrow> load_rows b item_type 0 (dict_reader tbl))"

text \<open>The text \<open>csv.writer\<close> writes for \<open>row.get(key)\<close>: \<open>None\<close> is the empty cell.\<close>

fun csv_cell :: "builtins \<Rightarrow> pyval option \<Rightarrow> string" where
  "csv_cell b None = []"
| "csv_cell b (Some PNone) = []"
| "csv_cell b (Some (PStr s)) = s"
| "csv_cell b (Some (PInt i)) = str_of_int i"
| "csv_cell b (Some (PFloat r)) = str_of_float b r"

definition save_master_csv :: "builtins \<Rightarrow> string \<Rightarrow> row list \<Rightarrow> store \<Rightarrow> store" where
  "save_master_csv b item_type data s =
     (if data = [] then
        (let headers = [''SerialNo'', type_key_of item_type, ''Unit'', ''Price'']
         in s\<lparr>csv_files := (csv_files s)(item_type := Some [headers])\<rparr>)
      else
        (let type_key = type_key_of item_type;
             headers = [''SerialNo'', type_key, ''Unit'', ''Price''];
             write_row = (\<lambda>row. [csv_cell b (dict_get row ''id''),
                                   csv_cell b (dict_get row ''name''),
                                   csv_cell b (dict_get row ''Unit''),
                                   csv_cell b (dict_get row ''Price'')])
         in s\<lparr>csv_files := (csv_files s)(item_type := Some (headers # map write_row data))\<rparr>))"

subsection \<open>Master inventory\<close>





definition delete_master_item ::
  "builtins \<Rightarrow> string \<Rightarrow> string \<Rightarrow> store \<Rightarrow> error option \<times> store" where
  "delete_master_item b item_type item_id s =
     (case load_master_csv b item_type s of
        Inl e \<Rightarrow> (Some e, s)
      | Inr all_items \<Rightarrow>
          (let items_to_keep = filter (\<lambda>item. dict_get item ''id'' \<noteq> Some (PStr item_id)) all_items
           in (None, save_master_csv b item_type items_to_keep s)))"

text \<open>\<open>get_master_item_map\<close>: the lookup table from \<open>item['id']\<close> to the item.\<close>

fun master_map_of :: "row list \<Rightarrow> (pyval \<times> row) list \<Rightarrow> error + (pyval \<times> row) list" where
  "master_map_of [] m = Inr m"
| "master_map_of (item # items) m =
     (case dict_get item ''id'' of
        None \<Rightarrow> Inl KeyError
      | Some k \<Rightarrow> master_map_of items (pdict_set k item m))"

definition get_master_item_map ::
  "builtins \<Rightarrow> string \<Rightarrow> store \<Rightarrow> error + (pyval \<times> row) list" where
  "get_master_item_map b item_type s =
     (case load_master_csv b item_type s of
        Inl e \<Rightarrow> Inl e
      | Inr items \<Rightarrow> master_map_of items [])"

subsection \<open>Categories and work items\<close>

definition get_all_categories :: "store \<Rightarrow> category list" where
  "get_all_categories s =
     (case categories (load_json_data s) of Some cs \<Rightarrow> cs | None \<Rightarrow> [])"

definition get_category_by_id :: "store \<Rightarrow> string \<Rightarrow> category option" where
  "get_category_by_id s category_id =
     find (\<lambda>c. cat_id c = Some category_id) (get_all_categories s)"

text \<open>
  The three functions below walk the categories, change the first one whose id is
  \<open>category_id\<close>, write the document and stop; \<open>None\<close> is the loop ending without a
  match, and then nothing is written.
\<close>

fun change_first_category ::
  "string \<Rightarrow> (category \<Rightarrow> category) \<Rightarrow> category list \<Rightarrow> category list option" where
  "change_first_category category_id f [] = None"
| "change_first_category category_id f (c # cs) =
     (if cat_id c = Some category_id then Some (f c # cs)
      else map_option ((#) c) (change_first_category category_id f cs))"

definition change_category :: "string \<Rightarrow> (category \<Rightarrow> category) \<Rightarrow> store \<Rightarrow> store" where
  "change_category category_id f s =
     (let data = load_json_data s
      in case change_first_category category_id f
                (case categories data of Some cs \<Rightarrow> cs | None \<Rightarrow> []) of
           None \<Rightarrow> s
         | Some cs' \<Rightarrow> save_json_data (data\<lparr>categories := Some cs'\<rparr>) s)"

definition category_items :: "category \<Rightarrow> work_item list" where
  "category_items c = (case work_items c of Some ws \<Rightarrow> ws | None \<Rightarrow> [])"

definition add_work_item_to_category :: "string \<Rightarrow> work_item \<Rightarrow> store \<Rightarrow> store" where
  "add_work_item_to_category category_id item s =
     change_category category_id
       (\<lambda>c. c\<lparr>work_items := Some (category_items c @ [item])\<rparr>) s"

definition find_work_item_by_id :: "store \<Rightarrow> string option \<Rightarrow> work_item option" where
  "find_work_item_by_id s work_item_id =
     find (\<lambda>item. wi_id item = work_item_id) (concat (map category_items (get_all_categories s)))"

definition update_work_item :: "string \<Rightarrow> work_item \<Rightarrow> store \<Rightarrow> store" where
  "update_work_item category_id updated_item s =
     change_category category_id
       (\<lambda>c. c\<lparr>work_items :=
                Some (map (\<lambda>item. if wi_id item = wi_id updated_item then updated_item else item)
                        (category_items c))\<rparr>) s"

definition delete_work_item :: "string \<Rightarrow> string \<Rightarrow> store \<Rightarrow> store" where
  "delete_work_item category_id work_item_id s =
     change_category category_id
       (\<lambda>c. c\<lparr>work_items :=
                Some (filter (\<lambda>item. wi_id item \<noteq> Some work_item_id) (category_items c))\<rparr>) s"

subsection \<open>Projects\<close>

definition get_projects :: "store \<Rightarrow> project list" where
  "get_projects s = (case projects (load_json_data s) of Some ps \<Rightarrow> ps | None \<Rightarrow> [])"

definition get_project_by_id :: "store \<Rightarrow> string \<Rightarrow> project option" where
  "get_project_by_id s project_id = find (\<lambda>p. proj_id p = Some project_id) (get_projects s)"

definition update_project :: "project \<Rightarrow> store \<Rightarrow> store" where
  "update_project project_data s =
     (let data = load_json_data s
      in save_json_data
           (data\<lparr>projects :=
                   Some (map (\<lambda>p. if proj_id p = proj_id project_data then project_data else p)
                           (case projects data of Some ps \<Rightarrow> ps | None \<Rightarrow> []))\<rparr>) s)"

section \<open>routes.py\<close>

subsection \<open>Form decoding\<close>

text \<open>
  A submitted form is a list of fields. \<open>form.get(key)\<close> is the first value of the key;
  \<open>form.items()\<close> gives every key once, with its first value, in the order of arrival.
\<close>

type_synonym form = "(string \<times> string) list"

definition form_get :: "form \<Rightarrow> string \<Rightarrow> string option" where
  "form_get form key = map_of form key"

fun form_items :: "string list \<Rightarrow> form \<Rightarrow> form" where
  "form_items seen [] = []"
| "form_items seen ((key, value) # rest) =
     (if key \<in> set seen then form_items seen rest
      else (key, value) # form_items (key # seen) rest)"

text \<open>The first loop of \<open>parse_form_data\<close>: a field \<open>type-index-field\<close> with a
  non-empty value is stored in the dictionary of the group \<open>type-index\<close>.\<close>

definition collect_field :: "(string \<times> form) list \<Rightarrow> string \<times> string \<Rightarrow> (string \<times> form) list" where
  "collect_field items kv =
     (let key = fst kv; value = snd kv
      in if CHR ''-'' \<in> set key then
           (case py_split CHR ''-'' key of
              [item_type, index, field] \<Rightarrow>
                if value \<noteq> [] then
                  (let group = item_type @ ''-'' @ index;
                       value_dict = (case dict_get items group of Some d \<Rightarrow> d | None \<Rightarrow> [])
                   in dict_set group (dict_set field value value_dict) items)
                else items
            | _ \<Rightarrow> items)
         else items)"

text \<open>The second loop: a group that has an \<open>id\<close> is appended to the list of its type.
  Unpacking \<open>key.split('-')\<close> into two names raises \<open>ValueError\<close> unless there are
  exactly two parts.\<close>

fun group_items ::
  "(string \<times> form) list \<Rightarrow> (string \<times> form list) list \<Rightarrow> error + (string \<times> form list) list" where
  "group_items [] data = Inr data"
| "group_items ((key, value_dict) # rest) data =
     (if dict_get value_dict ''id'' \<noteq> None then
        (case py_split CHR ''-'' key of
           [item_type, index] \<Rightarrow>
             group_items rest
               (dict_set item_type
                  ((case dict_get data item_type of Some l \<Rightarrow> l | None \<Rightarrow> []) @ [value_dict]) data)
         | _ \<Rightarrow> Inl ValueError)
      else group_items rest data)"

definition parse_form_data :: "form \<Rightarrow> error + (string \<times> form list) list" where
  "parse_form_data form = group_items (foldl collect_field [] (form_items [] form)) []"

subsection \<open>Category view\<close>

text \<open>The body of the loop of \<open>category_detail\<close> over the work items of the category.\<close>

definition migrate_item :: "work_item \<Rightarrow> work_item" where
  "migrate_item item0 =
     (let item1 = (if basis_quantity item0 = None then item0\<lparr>basis_quantity := Some 1\<rparr> else item0)
      in if price_per_unit item1 = None then
           (let total = (case sum_total item1 of Some t \<Rightarrow> t | None \<Rightarrow> 0);
                basis = (case basis_quantity item1 of Some q \<Rightarrow> q | None \<Rightarrow> 1)
            in item1\<lparr>price_per_unit := Some (if basis > 0 then total / basis else total)\<rparr>)
         else item1)"

text \<open>The category that \<open>category_detail\<close> hands to the template; \<open>None\<close> is the
  redirection when no category has the id.\<close>

definition category_detail :: "store \<Rightarrow> string \<Rightarrow> category option" where
  "category_detail s category_id =
     (case get_category_by_id s category_id of
        None \<Rightarrow> None
      | Some category \<Rightarrow> Some (category\<lparr>work_items := map_option (map migrate_item) (work_items category)\<rparr>))"

subsection \<open>Cost rollup\<close>

definition item_lines :: "string \<Rightarrow> work_item \<Rightarrow> work_item_line list" where
  "item_lines item_type w =
     (if item_type = ''labor'' then labor w
      else if item_type = ''material'' then material w else equipment w)"

definition set_item_lines :: "string \<Rightarrow> work_item_line list \<Rightarrow> work_item \<Rightarrow> work_item" where
  "set_item_lines item_type ls w =
     (if item_type = ''labor'' then w\<lparr>labor := ls\<rparr>
      else if item_type = ''material'' then w\<lparr>material := ls\<rparr> else w\<lparr>equipment := ls\<rparr>)"

definition set_item_total :: "string \<Rightarrow> rat \<Rightarrow> work_item \<Rightarrow> work_item" where
  "set_item_total item_type t w =
     (if item_type = ''labor'' then w\<lparr>labor_total := Some t\<rparr>
      else if item_type = ''material'' then w\<lparr>material_total := Some t\<rparr>
      else w\<lparr>equipment_total := Some t\<rparr>)"

text \<open>
  The body of the inner loop of \<open>process_work_item_form\<close> on one selected line, from the
  running subtotal and the lines appended so far. Every exception of the \<open>try\<close> block is
  one that the \<open>except\<close> clause catches, and the handler goes on to the next line: the
  state reached when the exception is raised is the result. The subtotal is added before
  the dictionary of the line is built.
\<close>

definition process_line ::
  "builtins \<Rightarrow> (pyval \<times> row) list \<Rightarrow> rat \<times> work_item_line list \<Rightarrow> form
   \<Rightarrow> rat \<times> work_item_line list" where
  "process_line b master_map acc item_data =
     (let group_subtotal = fst acc; lines = snd acc
      in case py_int (case dict_get item_data ''id'' of Some v \<Rightarrow> PStr v | None \<Rightarrow> PNone) of
           Inl e \<Rightarrow> (group_subtotal, lines)
         | Inr k \<Rightarrow>
        (case pdict_get master_map (PInt k) of
           None \<Rightarrow> (group_subtotal, lines)
         | Some master_item \<Rightarrow>
        (case py_float b (case dict_get item_data ''quantity'' of
                            Some v \<Rightarrow> PStr v | None \<Rightarrow> PInt 0) of
           Inl e \<Rightarrow> (group_subtotal, lines)
         | Inr quantity \<Rightarrow>
        (case dict_get master_item ''Price'' of
           None \<Rightarrow> (group_subtotal, lines)
         | Some price \<Rightarrow>
        (case py_float b price of
           Inl e \<Rightarrow> (group_subtotal, lines)
         | Inr unit_price \<Rightarrow>
             (let subtotal = quantity * unit_price;
                  group_subtotal = group_subtotal + subtotal
              in case dict_get master_item ''Type'' of
                   None \<Rightarrow> (group_subtotal, lines)
                 | Some name \<Rightarrow>
                     (case dict_get master_item ''Unit'' of
                        None \<Rightarrow> (group_subtotal, lines)
                      | Some unit \<Rightarrow>
                          (group_subtotal,
                           lines @ [\<lparr>line_id = dict_get item_data ''id'', line_name = name,
                                     line_quantity = quantity, line_unit_price = unit_price,
                                     line_subtotal = subtotal, line_unit = unit\<rparr>]))))))))"

text \<open>The outer loop, over the item types; the catalog is loaded outside of the \<open>try\<close>
  block, so an exception of the load ends the function.\<close>

fun process_groups ::
  "builtins \<Rightarrow> store \<Rightarrow> (string \<times> form list) list \<Rightarrow> string list \<Rightarrow> work_item \<times> rat
   \<Rightarrow> error + work_item \<times> rat" where
  "process_groups b s parsed_data [] st = Inr st"
| "process_groups b s parsed_data (item_type # rest) st =
     (case get_master_item_map b item_type s of
        Inl e \<Rightarrow> Inl e
      | Inr master_map \<Rightarrow>
          (let processed_item = fst st; total_cost = snd st;
               res = foldl (process_line b master_map) (0, item_lines item_type processed_item)
                       (case dict_get parsed_data item_type of Some l \<Rightarrow> l | None \<Rightarrow> []);
               group_subtotal = fst res;
               processed_item = set_item_total item_type group_subtotal
                                  (set_item_lines item_type (snd res) processed_item)
           in process_groups b s parsed_data rest (processed_item, total_cost + group_subtotal)))"

text \<open>
  \<open>process_work_item_form\<close>, in the order of the source: the coercion of
  \<open>basis_quantity\<close> (a value that is not a float, or is not positive, becomes 1), the
  record before the loops, the loops, and the four derived fields. \<open>Inr None\<close> is
  \<open>return None\<close>. The division raises on a zero divisor.
\<close>

definition coerce_basis_quantity :: "builtins \<Rightarrow> form \<Rightarrow> rat" where
  "coerce_basis_quantity b form =
     (case py_float b (case form_get form ''basis_quantity'' of
                         Some v \<Rightarrow> PStr v | None \<Rightarrow> PFloat 1) of
        Inr q \<Rightarrow> if q \<le> 0 then 1 else q
      | Inl e \<Rightarrow> 1)"

definition new_processed_item ::
  "builtins \<Rightarrow> form \<Rightarrow> string option \<Rightarrow> string \<Rightarrow> rat \<Rightarrow> work_item" where
  "new_processed_item b form work_item_id work_item_name basis_quantity_v =
     \<lparr>wi_id = Some (case work_item_id of
                      Some i \<Rightarrow> if i \<noteq> [] then i else uuid4 b 0
                    | None \<Rightarrow> uuid4 b 0),
      wi_name = Some work_item_name,
      unit_of_measure = Some (case form_get form ''unit_of_measure'' of
                                Some u \<Rightarrow> u | None \<Rightarrow> ''Per Item''),
      basis_quantity = Some basis_quantity_v,
      labor = [], material = [], equipment = [],
      labor_total = Some 0, material_total = Some 0, equipment_total = Some 0,
      total_cost_per_unit = None, contractor_overhead_15_percent = None,
      sum_total = None, price_per_unit = None\<rparr>"

definition finish_item :: "work_item \<Rightarrow> rat \<Rightarrow> rat \<Rightarrow> error + work_item option" where
  "finish_item processed_item total_cost basis_quantity_v =
     (let sum_total_v = total_cost * (115 / 100)
      in if basis_quantity_v = 0 then Inl ZeroDivisionError
         else Inr (Some (processed_item
                \<lparr>total_cost_per_unit := Some total_cost,
                 contractor_overhead_15_percent := Some (total_cost * (15 / 100)),
                 sum_total := Some sum_total_v,
                 price_per_unit := Some (sum_total_v / basis_quantity_v)\<rparr>)))"

definition process_work_item_form ::
  "builtins \<Rightarrow> form \<Rightarrow> string option \<Rightarrow> store \<Rightarrow> error + work_item option" where
  "process_work_item_form b form work_item_id s =
     (case form_get form ''name'' of
        None \<Rightarrow> Inr None
      | Some work_item_name \<Rightarrow>
          if work_item_name = [] then Inr None
          else
            (case parse_form_data form of
               Inl e \<Rightarrow> Inl e
             | Inr parsed_data \<Rightarrow>
                 (case process_groups b s parsed_data [''labor'', ''material'', ''equipment'']
                         (new_processed_item b form work_item_id work_item_name
                            (coerce_basis_quantity b form), 0) of
                    Inl e \<Rightarrow> Inl e
                  | Inr st \<Rightarrow> finish_item (fst st) (snd st) (coerce_basis_quantity b form))))"



subsection \<open>Projects\<close>

text \<open>The loop of the POST branch of \<open>project_detail\<close>; \<open>item["instance_id"]\<close> raises
  \<open>KeyError\<close> on a line without that key.\<close>

fun update_quantities :: "builtins \<Rightarrow> form \<Rightarrow> project_line list \<Rightarrow> error + project_line list" where
  "update_quantities b form [] = Inr []"
| "update_quantities b form (item # items) =
     (case instance_id item of
        None \<Rightarrow> Inl KeyError
      | Some iid \<Rightarrow>
          (let item' = (case form_get form (''quantity-'' @ iid) of
                          None \<Rightarrow> item
                        | Some new_quantity \<Rightarrow>
                            (case py_float b (PStr new_quantity) of
                               Inr q \<Rightarrow> item\<lparr>pl_quantity := Some q\<rparr>
                             | Inl e \<Rightarrow> item\<lparr>pl_quantity := Some 0\<rparr>))
           in case update_quantities b form items of
                Inl e \<Rightarrow> Inl e
              | Inr items' \<Rightarrow> Inr (item' # items')))"

definition project_detail_post ::
  "builtins \<Rightarrow> string \<Rightarrow> form \<Rightarrow> store \<Rightarrow> error option \<times> store" where
  "project_detail_post b project_id form s =
     (case get_project_by_id s project_id of
        None \<Rightarrow> (None, s)
      | Some project \<Rightarrow>
          (case proj_items project of
             None \<Rightarrow> (None, update_project project s)
           | Some items \<Rightarrow>
               (case update_quantities b form items of
                  Inl e \<Rightarrow> (Some e, s)
                | Inr items' \<Rightarrow> (None, update_project (project\<lparr>proj_items := Some items'\<rparr>) s))))"

definition add_item_to_project ::
  "builtins \<Rightarrow> string \<Rightarrow> form \<Rightarrow> store \<Rightarrow> error option \<times> store" where
  "add_item_to_project b project_id form s =
     (case get_project_by_id s project_id of
        None \<Rightarrow> (None, s)
      | Some project \<Rightarrow>
          (let work_item_id = form_get form ''work_item_id'';
               quantity = (case form_get form ''quantity'' of Some q \<Rightarrow> q | None \<Rightarrow> ''1.0'')
           in case find_work_item_by_id s work_item_id of
                None \<Rightarrow> (None, s)
              | Some work_item \<Rightarrow>
                  (case py_float b (PStr quantity) of
                     Inl e \<Rightarrow> (Some e, s)
                   | Inr q \<Rightarrow>
                       (let new_item =
                              \<lparr>instance_id = Some (uuid4 b 0), pl_work_item_id = work_item_id,
                               pl_name = wi_name work_item,
                               pl_unit_of_measure = unit_of_measure work_item,
                               pl_unit_price = Some (case sum_total work_item of
                                                       Some t \<Rightarrow> t | None \<Rightarrow> 0),
                               pl_quantity = Some q\<rparr>;
                            project' = project\<lparr>proj_items :=
                                         Some ((case proj_items project of
                                                  Some l \<Rightarrow> l | None \<Rightarrow> []) @ [new_item])\<rparr>
                        in (None, update_project project' s)))))"

section \<open>The specification's wording of the new identifier\<close>

text \<open>
  The integers that the identifiers of a catalog parse to, in order, and the identifier
  the specification describes: the maximum of those integers (0 when there is none),
  plus one, as text.
\<close>

definition parsed_ids :: "row list \<Rightarrow> int list" where
  "parsed_ids all_items =
     concat (map (\<lambda>item. case py_int (case dict_get item ''id'' of Some v \<Rightarrow> v | None \<Rightarrow> PInt 0) of
                            Inr k \<Rightarrow> [k] | Inl e \<Rightarrow> []) all_items)"


section \<open>A concrete instance for evaluation\<close>

text \<open>
  An instance of the builtins on which the model can be run: \<open>float\<close> reads a signed
  decimal literal without exponent, and a float is written with its decimal digits (at
  most 17 after the point).
\<close>

definition sample_float_of_str :: "string \<Rightarrow> rat option" where
  "sample_float_of_str s =
     (let t = py_strip s;
          signed = (case t of [] \<Rightarrow> False | c # cs \<Rightarrow> c = CHR ''-'' \<or> c = CHR ''+'');
          sign = (case t of [] \<Rightarrow> 1 | c # cs \<Rightarrow> if c = CHR ''-'' then - 1 else (1 :: rat));
          u = (if signed then tl t else t);
          digits_of = (\<lambda>p. if p = [] then Some 0 else parse_nat p)
      in case py_split CHR ''.'' u of
           [ip] \<Rightarrow> map_option (\<lambda>n. sign * of_nat n) (parse_nat ip)
         | [ip, fp] \<Rightarrow>
             if ip = [] \<and> fp = [] then None
             else (case digits_of ip of
                     None \<Rightarrow> None
                   | Some i \<Rightarrow>
                       (case digits_of fp of
                          None \<Rightarrow> None
                        | Some f \<Rightarrow>
                            Some (sign * (of_nat i
                                   + of_nat f / 10 ^ length (filter (\<lambda>c. c \<noteq> CHR ''_'') fp)))))
         | _ \<Rightarrow> None)"

fun frac_digits :: "nat \<Rightarrow> rat \<Rightarrow> string" where
  "frac_digits 0 r = []"
| "frac_digits (Suc n) r =
     (if r = 0 then []
      else digit_char (nat \<lfloor>r * 10\<rfloor>) # frac_digits n (r * 10 - of_int \<lfloor>r * 10\<rfloor>))"

definition sample_str_of_float :: "rat \<Rightarrow> string" where
  "sample_str_of_float r =
     (let a = \<bar>r\<bar>; fp = a - of_int \<lfloor>a\<rfloor>
      in (if r < 0 then ''-'' else []) @ str_of_nat (nat \<lfloor>a\<rfloor>) @ ''.''
         @ (if fp = 0 then ''0'' else frac_digits 17 fp))"

definition sample_builtins :: builtins where
  "sample_builtins =
     \<lparr>float_of_str = sample_float_of_str, str_of_float = sample_str_of_float,
      uuid4 = (\<lambda>n. ''uuid-'' @ str_of_nat n)\<rparr>"

text \<open>A data directory with one labor rate, and a form that selects it.\<close>

definition labor_csv :: csv_table where
  "labor_csv = [[''SerialNo'', ''LaborType'', ''Unit'', ''Price''],
                [''1'', ''Mason'', ''PerDay'', ''100'']]"

definition example_store :: store where
  "example_store =
     \<lparr>data_json = None, csv_files = (\<lambda>t. if t = ''labor'' then Some labor_csv else None)\<rparr>"

definition example_form :: form where
  "example_form = [(''name'', ''Wall''), (''basis_quantity'', ''2''),
                   (''labor-0-id'', ''1''), (''labor-0-quantity'', ''2'')]"




text \<open>A document with one category, one work item and one project.\<close>

definition example_item :: work_item where
  "example_item =
     \<lparr>wi_id = Some ''w1'', wi_name = Some ''Wall'', unit_of_measure = Some ''Cubic Meter'',
      basis_quantity = Some 0, labor = [], material = [], equipment = [],
      labor_total = Some 0, material_total = Some 0, equipment_total = Some 0,
      total_cost_per_unit = Some 0, contractor_overhead_15_percent = Some 0,
      sum_total = Some 10, price_per_unit = None\<rparr>"

definition example_document :: document where
  "example_document =
     \<lparr>categories = Some [\<lparr>cat_id = Some ''c1'', cat_name = Some ''Masonry'',
                          work_items = Some [example_item]\<rparr>],
      projects = Some [\<lparr>proj_id = Some ''p1'', proj_name = Some ''House'',
                        proj_items = Some []\<rparr>]\<rparr>"

definition document_store :: store where
  "document_store = \<lparr>data_json = Some example_document, csv_files = (\<lambda>t. None)\<rparr>"

section \<open>Invariants used by the proofs\<close>

text \<open>A cell read by \<open>csv.DictReader\<close> is a string or \<open>None\<close>, never a number.\<close>

definition is_text :: "pyval \<Rightarrow> bool" where
  "is_text v = (case v of PNone \<Rightarrow> True | PStr s \<Rightarrow> True | PInt i \<Rightarrow> False | PFloat r \<Rightarrow> False)"

definition text_row :: "row \<Rightarrow> bool" where
  "text_row r = list_all (\<lambda>kv. is_text (snd kv)) r"


text \<open>The key of a group of form fields splits into a type and an index.\<close>

definition group_key :: "string \<Rightarrow> bool" where
  "group_key g = (length (py_split CHR ''-'' g) = 2)"







section \<open>Auxiliary lemmas\<close>

subsection \<open>Dictionaries\<close>

lemma dict_get_set [simp]:
  "dict_get (dict_set k v d) k' = (if k' = k then Some v else dict_get d k')"
  by (induction d) (auto simp: dict_get_def)

lemma dict_get_del [simp]:
  "dict_get (dict_del k d) k' = (if k' = k then None else dict_get d k')"
  by (induction d) (auto simp: dict_get_def dict_del_def)

lemma dict_set_keys:
  "list_all (\<lambda>kv. P (fst kv)) d \<Longrightarrow> P k \<Longrightarrow> list_all (\<lambda>kv. P (fst kv)) (dict_set k v d)"
  by (induction d) auto

lemma text_row_set: "text_row d \<Longrightarrow> is_text v \<Longrightarrow> text_row (dict_set k v d)"
  by (induction d) (auto simp: text_row_def)

lemma text_row_get: "text_row d \<Longrightarrow> dict_get d k = Some v \<Longrightarrow> is_text v"
  by (induction d) (auto simp: text_row_def dict_get_def split: if_splits)

lemma text_row_fold_cells:
  "text_row d \<Longrightarrow> text_row (foldl (\<lambda>d (k, v). dict_set k v d) d (zip fs (map PStr cs)))"
proof (induction fs arbitrary: d cs)
  case Nil
  then show ?case by simp
next
  case (Cons f fs)
  show ?case
  proof (cases cs)
    case Nil
    with Cons.prems show ?thesis by simp
  next
    case (Cons c cs')
    have "text_row (dict_set f (PStr c) d)"
      using Cons.prems by (simp add: text_row_set is_text_def)
    then show ?thesis
      using Cons.IH Cons by simp
  qed
qed

lemma text_row_fold_none:
  "text_row d \<Longrightarrow> text_row (foldl (\<lambda>d k. dict_set k PNone d) d ks)"
  by (induction ks arbitrary: d) (simp_all add: text_row_set is_text_def)

lemma text_row_reader: "text_row (dict_reader_row fieldnames cells)"
proof -
  have "text_row []" by (simp add: text_row_def)
  then show ?thesis
    unfolding dict_reader_row_def Let_def
    by (simp add: text_row_fold_cells text_row_fold_none)
qed

lemma dict_reader_text: "r \<in> set (dict_reader tbl) \<Longrightarrow> text_row r"
  by (auto simp: dict_reader_def text_row_reader split: list.splits)

subsection \<open>The type column\<close>

lemma type_key_not_fixed:
  "type_key_of t \<noteq> ''SerialNo''" "type_key_of t \<noteq> ''Unit''" "type_key_of t \<noteq> ''Price''"
  "type_key_of t \<noteq> ''id''" "type_key_of t \<noteq> ''name''"
proof -
  have r: "\<And>x. type_key_of t = x \<Longrightarrow> take 2 (rev x) = ''ep''"
    by (auto simp: type_key_of_def)
  show "type_key_of t \<noteq> ''SerialNo''" using r by fastforce
  show "type_key_of t \<noteq> ''Unit''" using r by fastforce
  show "type_key_of t \<noteq> ''Price''" using r by fastforce
  show "type_key_of t \<noteq> ''id''" using r by fastforce
  show "type_key_of t \<noteq> ''name''" using r by fastforce
qed

subsection \<open>Loading a catalog\<close>

lemma standardize_row_id:
  assumes "text_row r" and "standardize_row b t i r = Inr r'"
  shows "\<exists>v. dict_get r' ''id'' = Some v \<and> is_text v"
proof -
  define r1 where "r1 = (case dict_get r ''SerialNo'' of
                    Some v \<Rightarrow> dict_set ''id'' v r
                  | None \<Rightarrow> dict_set ''id'' (PStr (uuid4 b i)) r)"
  have "\<exists>v. dict_get r1 ''id'' = Some v \<and> is_text v"
    using assms(1) by (auto simp: r1_def is_text_def dest: text_row_get split: option.splits)
  then obtain v where v: "dict_get r1 ''id'' = Some v" "is_text v" by blast
  have "dict_get r' ''id'' = Some v"
    using assms(2) v(1) type_key_not_fixed(4)[of t]
    unfolding standardize_row_def r1_def[symmetric] Let_def
    by (auto split: sum.splits option.splits)
  with v(2) show ?thesis by blast
qed

lemma load_rows_id:
  "\<forall>r \<in> set rs. text_row r \<Longrightarrow> load_rows b t i rs = Inr items
   \<Longrightarrow> \<forall>item \<in> set items. \<exists>v. dict_get item ''id'' = Some v \<and> is_text v"
proof (induction rs arbitrary: i items)
  case Nil
  then show ?case by simp
next
  case (Cons r rs)
  from Cons.prems(2) obtain r' rs' where
    r': "standardize_row b t i r = Inr r'" and rs': "load_rows b t (Suc i) rs = Inr rs'"
    and items: "items = r' # rs'"
    by (auto split: sum.splits)
  have "\<exists>v. dict_get r' ''id'' = Some v \<and> is_text v"
    using standardize_row_id[OF _ r'] Cons.prems(1) by simp
  moreover have "\<forall>item \<in> set rs'. \<exists>v. dict_get item ''id'' = Some v \<and> is_text v"
    using Cons.IH[OF _ rs'] Cons.prems(1) by simp
  ultimately show ?case using items by simp
qed

lemma load_master_csv_id:
  "load_master_csv b t s = Inr items
   \<Longrightarrow> \<forall>item \<in> set items. \<exists>v. dict_get item ''id'' = Some v \<and> is_text v"
  unfolding load_master_csv_def
  by (cases "csv_files s t") (auto dest!: load_rows_id[rotated] simp: dict_reader_text)

subsection \<open>The lookup table\<close>

lemma pdict_set_keys:
  "list_all (\<lambda>kv. is_text (fst kv)) m \<Longrightarrow> is_text k
   \<Longrightarrow> list_all (\<lambda>kv. is_text (fst kv)) (pdict_set k v m)"
  by (induction m) auto

lemma master_map_of_ok:
  "\<forall>item \<in> set items. \<exists>v. dict_get item ''id'' = Some v \<and> is_text v
   \<Longrightarrow> list_all (\<lambda>kv. is_text (fst kv)) m
   \<Longrightarrow> \<exists>m'. master_map_of items m = Inr m' \<and> list_all (\<lambda>kv. is_text (fst kv)) m'"
proof (induction items arbitrary: m)
  case Nil
  then show ?case by simp
next
  case (Cons item items)
  from Cons.prems(1) obtain v where v: "dict_get item ''id'' = Some v" "is_text v" by auto
  have "list_all (\<lambda>kv. is_text (fst kv)) (pdict_set v item m)"
    using pdict_set_keys[OF Cons.prems(2) v(2)] .
  from Cons.IH[OF _ this] Cons.prems(1) v(1) show ?case by simp
qed

lemma pdict_get_int: "list_all (\<lambda>kv. is_text (fst kv)) m \<Longrightarrow> pdict_get m (PInt k) = None"
proof (induction m)
  case Nil
  then show ?case by simp
next
  case (Cons kv m)
  obtain k' v where kv: "kv = (k', v)" by (cases kv)
  with Cons.prems have "is_text k'" by simp
  then have "\<not> py_eq k' (PInt k)" by (cases k') (simp_all add: is_text_def)
  with Cons kv show ?case by simp
qed

lemma get_master_item_map_ok:
  assumes "load_master_csv b t s = Inr items"
  shows "\<exists>m. get_master_item_map b t s = Inr m \<and> (\<forall>k. pdict_get m (PInt k) = None)"
proof -
  from master_map_of_ok[OF load_master_csv_id[OF assms], of "[]"]
  obtain m' where "master_map_of items [] = Inr m'" "list_all (\<lambda>kv. is_text (fst kv)) m'"
    by auto
  then show ?thesis
    using assms by (auto simp: get_master_item_map_def pdict_get_int)
qed

lemma get_master_item_map_fails:
  "load_master_csv b t s = Inl e \<Longrightarrow> get_master_item_map b t s = Inl e"
  by (simp add: get_master_item_map_def)

subsection \<open>Splitting a form key\<close>

lemma py_split_not_empty: "py_split c s \<noteq> []"
  by (induction s) (auto split: list.splits)

lemma py_split_no_sep: "c \<notin> set s \<Longrightarrow> py_split c s = [s]"
  by (induction s) auto

lemma py_split_append: "c \<notin> set a \<Longrightarrow> py_split c (a @ c # r) = a # py_split c r"
  by (induction a) auto

lemma py_split_parts: "p \<in> set (py_split c s) \<Longrightarrow> c \<notin> set p"
proof (induction s arbitrary: p)
  case Nil
  then show ?case by simp
next
  case (Cons x xs)
  show ?case
  proof (cases "x = c")
    case True
    with Cons show ?thesis by auto
  next
    case False
    obtain q qs where q: "py_split c xs = q # qs"
      using py_split_not_empty[of c xs] by (cases "py_split c xs") auto
    with Cons.prems False have "p = x # q \<or> p \<in> set qs" by auto
    then show ?thesis
      using Cons.IH q False by auto
  qed
qed

lemma py_split_group:
  assumes "py_split c key = [item_type, index, field]"
  shows "py_split c (item_type @ [c] @ index) = [item_type, index]"
proof -
  have "c \<notin> set item_type" "c \<notin> set index"
    using py_split_parts[of _ c key] assms by auto
  then show ?thesis
    by (simp add: py_split_append py_split_no_sep)
qed

lemma collect_field_keys:
  "list_all (\<lambda>kv. group_key (fst kv)) items
   \<Longrightarrow> list_all (\<lambda>kv. group_key (fst kv)) (collect_field items kv)"
  unfolding collect_field_def Let_def
  by (auto split: list.splits intro!: dict_set_keys simp: group_key_def dest: py_split_group)

lemma collect_fields_keys:
  "list_all (\<lambda>kv. group_key (fst kv)) items
   \<Longrightarrow> list_all (\<lambda>kv. group_key (fst kv)) (foldl collect_field items kvs)"
  by (induction kvs arbitrary: items) (simp_all add: collect_field_keys)

lemma group_items_ok:
  "list_all (\<lambda>kv. group_key (fst kv)) items \<Longrightarrow> \<exists>data'. group_items items data = Inr data'"
proof (induction items arbitrary: data)
  case Nil
  then show ?case by simp
next
  case (Cons kv items)
  obtain key value_dict where kv: "kv = (key, value_dict)" by (cases kv)
  with Cons.prems have "length (py_split CHR ''-'' key) = 2"
    by (simp add: group_key_def)
  then obtain a b where ab: "py_split CHR ''-'' key = [a, b]"
    by (auto simp: length_Suc_conv numeral_2_eq_2)
  from Cons.prems have rest: "list_all (\<lambda>kv. group_key (fst kv)) items" by simp
  show ?case
    using Cons.IH[OF rest] kv ab by simp
qed

lemma parse_form_data_ok: "\<exists>parsed_data. parse_form_data form = Inr parsed_data"
  unfolding parse_form_data_def
  by (rule group_items_ok) (simp add: collect_fields_keys)

subsection \<open>The rollup\<close>

lemma process_line_skip:
  "\<forall>k. pdict_get master_map (PInt k) = None \<Longrightarrow> process_line b master_map acc item_data = acc"
  unfolding process_line_def Let_def
  by (simp split: sum.splits)

lemma process_lines_skip:
  "\<forall>k. pdict_get master_map (PInt k) = None
   \<Longrightarrow> foldl (process_line b master_map) acc lines = acc"
  by (induction lines) (simp_all add: process_line_skip)

lemma set_item_lines_same: "set_item_lines t (item_lines t w) w = w"
  by (simp add: set_item_lines_def item_lines_def)

lemma process_groups_result:
  "process_groups b s parsed_data ts (w, c) = Inr st
   \<Longrightarrow> st = (foldl (\<lambda>w t. set_item_total t 0 w) w ts, c)"
proof (induction ts arbitrary: w c)
  case Nil
  then show ?case by simp
next
  case (Cons t ts)
  from Cons.prems obtain m where m: "get_master_item_map b t s = Inr m"
    by (auto split: sum.splits)
  then obtain items where "load_master_csv b t s = Inr items"
    by (auto simp: get_master_item_map_def split: sum.splits)
  from get_master_item_map_ok[OF this] m have skip: "\<forall>k. pdict_get m (PInt k) = None"
    by simp
  have "process_groups b s parsed_data ts (set_item_total t 0 w, c) = Inr st"
    using Cons.prems m by (simp add: process_lines_skip[OF skip] set_item_lines_same)
  from Cons.IH[OF this] show ?case by simp
qed



subsection \<open>The record of a form\<close>



lemma process_work_item_form_some:
  assumes "process_work_item_form b form work_item_id s = Inr (Some r)"
  shows "\<exists>n. form_get form ''name'' = Some n \<and> n \<noteq> []
           \<and> r = (foldl (\<lambda>w t. set_item_total t 0 w)
                    (new_processed_item b form work_item_id n (coerce_basis_quantity b form))
                    [''labor'', ''material'', ''equipment''])
                  \<lparr>total_cost_per_unit := Some 0,
                   contractor_overhead_15_percent := Some (0 * (15 / 100)),
                   sum_total := Some (0 * (115 / 100)),
                   price_per_unit := Some (0 * (115 / 100) / coerce_basis_quantity b form)\<rparr>"
proof -
  obtain pd where pd: "parse_form_data form = Inr pd"
    using parse_form_data_ok by blast
  from assms obtain n where n: "form_get form ''name'' = Some n" "n \<noteq> []"
    unfolding process_work_item_form_def by (auto split: option.splits if_splits)
  from assms n pd obtain st where
    st: "process_groups b s pd [''labor'', ''material'', ''equipment'']
           (new_processed_item b form work_item_id n (coerce_basis_quantity b form), 0) = Inr st"
    and fin: "finish_item (fst st) (snd st) (coerce_basis_quantity b form) = Inr (Some r)"
    unfolding process_work_item_form_def by (auto split: sum.splits)
  from process_groups_result[OF st] fin n show ?thesis
    by (auto simp: finish_item_def Let_def split: if_splits)
qed



text \<open>No form and no catalog make the loops append a line or add to a total.\<close>

lemma process_work_item_form_no_lines:
  assumes "process_work_item_form b form work_item_id s = Inr (Some r)"
  shows "labor r = [] \<and> material r = [] \<and> equipment r = []
         \<and> labor_total r = Some 0 \<and> material_total r = Some 0 \<and> equipment_total r = Some 0"
  using process_work_item_form_some[OF assms]
  by (auto simp: set_item_total_def new_processed_item_def)

section \<open>Cost rollup: the selected lines\<close>

text \<open>
  Claim C1. A selected line whose master item is in the lookup table, and whose quantity
  and price are numbers, should add quantity times price to the total of its category
  and be appended to the record. The code does not do so: the table of
  \<open>get_master_item_map\<close> is keyed by the text of the identifier, and
  \<open>process_work_item_form\<close> looks the line up under the integer \<open>int(id)\<close>, which is
  never a key (lemma \<open>process_work_item_form_no_lines\<close>: no record ever has a line).
  On the example directory, the catalog has the item \<open>1\<close> at 100 per day and the
  form selects it with quantity 2; the lookup under the text finds it, the lookup under
  the integer does not, and the record has no labor line and a labor total of 0.
\<close>

theorem known_line_is_skipped:
  "(case get_master_item_map sample_builtins ''labor'' example_store of
      Inr master_map \<Rightarrow>
        pdict_get master_map (PStr ''1'') \<noteq> None \<and> pdict_get master_map (PInt 1) = None
    | Inl e \<Rightarrow> False)
   \<and> py_int (PStr ''1'') = Inr 1
   \<and> py_float sample_builtins (PStr ''2'') = Inr 2
   \<and> (case process_work_item_form sample_builtins example_form None example_store of
         Inr (Some r) \<Rightarrow> labor r = [] \<and> labor_total r = Some 0 \<and> total_cost_per_unit r = Some 0
       | _ \<Rightarrow> False)"
  by code_simp

section \<open>Cost rollup: the derived fields\<close>





section \<open>Cost rollup: when a record is produced\<close>




section \<open>Views, projects, labels and frames\<close>

subsection \<open>Category view\<close>

lemma migrate_item_fields:
  "basis_quantity (migrate_item stored) = Some (case basis_quantity stored of None \<Rightarrow> 1 | Some q \<Rightarrow> q)"
  "price_per_unit (migrate_item stored) =
     Some (case price_per_unit stored of
             Some p \<Rightarrow> p
           | None \<Rightarrow>
               (let total = (case sum_total stored of Some t \<Rightarrow> t | None \<Rightarrow> 0);
                    basis = (case basis_quantity stored of None \<Rightarrow> 1 | Some q \<Rightarrow> q)
                in if basis > 0 then total / basis else total))"
  by (auto simp: migrate_item_def Let_def split: option.splits)

text \<open>
  Claim C4, as amended. The category that \<open>category_detail\<close> shows has the stored work
  items in the stored order; an item without \<open>basis_quantity\<close> is shown with 1, and an
  item that has one is shown with the stored value, whatever its sign; an item without
  \<open>price_per_unit\<close> is shown with \<open>sum_total\<close> divided by the basis quantity when that
  is positive and with \<open>sum_total\<close> otherwise (an absent \<open>sum_total\<close> counts as 0), and
  an item that has a \<open>price_per_unit\<close> keeps it.
\<close>

theorem category_detail_migration:
  assumes "category_detail s category_id = Some shown"
  shows "\<exists>category. get_category_by_id s category_id = Some category
           \<and> length (category_items shown) = length (category_items category)
           \<and> (\<forall>i < length (category_items category).
                 basis_quantity (category_items shown ! i) =
                   Some (case basis_quantity (category_items category ! i) of
                           None \<Rightarrow> 1 | Some q \<Rightarrow> q)
                 \<and> price_per_unit (category_items shown ! i) =
                   Some (case price_per_unit (category_items category ! i) of
                           Some p \<Rightarrow> p
                         | None \<Rightarrow>
                             (let total = (case sum_total (category_items category ! i) of
                                             Some t \<Rightarrow> t | None \<Rightarrow> 0);
                                  basis = (case basis_quantity (category_items category ! i) of
                                             None \<Rightarrow> 1 | Some q \<Rightarrow> q)
                              in if basis > 0 then total / basis else total)))"
proof -
  from assms obtain category where
    c: "get_category_by_id s category_id = Some category"
    and shown: "shown = category\<lparr>work_items := map_option (map migrate_item) (work_items category)\<rparr>"
    by (auto simp: category_detail_def split: option.splits)
  have items: "category_items shown = map migrate_item (category_items category)"
    by (simp add: shown category_items_def split: option.splits)
  show ?thesis
    using c by (simp add: items migrate_item_fields)
qed

theorem category_detail_migration_witness:
  "\<exists>shown. category_detail document_store ''c1'' = Some shown
     \<and> (\<exists>category. get_category_by_id document_store ''c1'' = Some category
           \<and> length (category_items shown) = length (category_items category)
           \<and> (\<forall>i < length (category_items category).
                 basis_quantity (category_items shown ! i) =
                   Some (case basis_quantity (category_items category ! i) of
                           None \<Rightarrow> 1 | Some q \<Rightarrow> q)
                 \<and> price_per_unit (category_items shown ! i) =
                   Some (case price_per_unit (category_items category ! i) of
                           Some p \<Rightarrow> p
                         | None \<Rightarrow>
                             (let total = (case sum_total (category_items category ! i) of
                                             Some t \<Rightarrow> t | None \<Rightarrow> 0);
                                  basis = (case basis_quantity (category_items category ! i) of
                                             None \<Rightarrow> 1 | Some q \<Rightarrow> q)
                              in if basis > 0 then total / basis else total))))"
proof -
  have "category_detail document_store ''c1'' \<noteq> None"
    by code_simp
  then obtain shown where h: "category_detail document_store ''c1'' = Some shown"
    by blast
  from category_detail_migration[OF h] h show ?thesis by blast
qed

text \<open>
  Claim C4 as stated, that a stored basis quantity that is not positive is shown as 1,
  fails on a stored work item whose \<open>basis_quantity\<close> is 0: it is shown with 0 (and with
  its \<open>sum_total\<close>, 10, as \<open>price_per_unit\<close>).
\<close>

theorem category_detail_counterexample:
  "(case get_category_by_id document_store ''c1'' of
      Some category \<Rightarrow> map basis_quantity (category_items category) = [Some 0]
    | None \<Rightarrow> False)
   \<and> (case category_detail document_store ''c1'' of
         Some shown \<Rightarrow> map basis_quantity (category_items shown) = [Some 0]
                        \<and> map price_per_unit (category_items shown) = [Some 10]
       | None \<Rightarrow> False)"
  by code_simp

subsection \<open>Projects\<close>

lemma update_quantities_lenient:
  "list_all (\<lambda>item. instance_id item \<noteq> None) items
   \<Longrightarrow> \<exists>items'. update_quantities b form items = Inr items'"
  by (induction items) (auto simp: Let_def)

text \<open>
  Claim C5. A quantity that is not a number should never make an operation on a project
  line fail. \<open>project_detail\<close> replaces such a quantity by 0 (lemma
  \<open>update_quantities_lenient\<close>), but \<open>add_item_to_project\<close> calls \<open>float\<close> outside of any
  \<open>try\<close> block: for the project \<open>p1\<close> and the work item \<open>w1\<close> of the example
  document, the quantity \<open>abc\<close> raises \<open>ValueError\<close>.
\<close>

theorem add_item_to_project_raises:
  "get_project_by_id document_store ''p1'' \<noteq> None
   \<and> find_work_item_by_id document_store (Some ''w1'') \<noteq> None
   \<and> float_of_str sample_builtins ''abc'' = None
   \<and> fst (add_item_to_project sample_builtins ''p1''
             [(''work_item_id'', ''w1''), (''quantity'', ''abc'')] document_store)
       = Some ValueError"
  by code_simp

subsection \<open>Unit labels\<close>

lemma py_lower_per: "py_lower p = ''per'' \<Longrightarrow> length p = 3"
  by (auto simp: py_lower_def)

text \<open>
  Claim C8. \<open>format_unit\<close> returns a value that is not a string as it is. A string
  whose first three characters are \<open>per\<close> in any case loses them; what remains is
  lowercased exactly when it is uppercase (\<open>str.isupper\<close>) or at most two characters
  long, and is prefixed with \<open>1\<close> and a space. Any other string is prefixed with \<open>1\<close>
  and a space, unchanged. The four examples of the specification hold.
\<close>

theorem format_unit_cases:
  "(\<forall>v. (\<forall>s. v \<noteq> PStr s) \<longrightarrow> format_unit v = v)
   \<and> (\<forall>p r. py_lower p = ''per''
        \<longrightarrow> format_unit (PStr (p @ r)) =
              PStr (''1 '' @ (if py_isupper r \<or> length r \<le> 2 then py_lower r else r)))
   \<and> (\<forall>s. \<not> py_startswith (py_lower s) ''per'' \<longrightarrow> format_unit (PStr s) = PStr (''1 '' @ s))
   \<and> (\<forall>s. py_startswith (py_lower s) ''per'' \<longrightarrow> (\<exists>p r. s = p @ r \<and> py_lower p = ''per''))
   \<and> format_unit (PStr ''PerKg'') = PStr ''1 kg''
   \<and> format_unit (PStr ''PerDay'') = PStr ''1 Day''
   \<and> format_unit (PStr ''CubicM'') = PStr ''1 CubicM''
   \<and> format_unit (PInt 42) = PInt 42"
proof (intro conjI allI impI)
  fix v
  assume "\<forall>s. v \<noteq> PStr s"
  then show "format_unit v = v" by (cases v) simp_all
next
  fix p r
  assume p: "py_lower p = ''per''"
  then have "length p = 3" by (rule py_lower_per)
  with p have "py_startswith (py_lower (p @ r)) ''per''" "drop 3 (p @ r) = r"
    by (simp_all add: py_startswith_def py_lower_def)
  then show "format_unit (PStr (p @ r)) =
              PStr (''1 '' @ (if py_isupper r \<or> length r \<le> 2 then py_lower r else r))"
    by (simp add: Let_def)
next
  fix s
  assume "\<not> py_startswith (py_lower s) ''per''"
  then show "format_unit (PStr s) = PStr (''1 '' @ s)" by simp
next
  fix s
  assume "py_startswith (py_lower s) ''per''"
  then have "py_lower (take 3 s) = ''per''"
    by (simp add: py_startswith_def py_lower_def take_map numeral_3_eq_3)
  moreover have "s = take 3 s @ drop 3 s" by simp
  ultimately show "\<exists>p r. s = p @ r \<and> py_lower p = ''per''" by blast
next
  show "format_unit (PStr ''PerKg'') = PStr ''1 kg''" by code_simp
  show "format_unit (PStr ''PerDay'') = PStr ''1 Day''" by code_simp
  show "format_unit (PStr ''CubicM'') = PStr ''1 CubicM''" by code_simp
  show "format_unit (PInt 42) = PInt 42" by simp
qed

theorem format_unit_cases_witness:
  "format_unit PNone = PNone
   \<and> py_lower ''PER'' = ''per''
   \<and> format_unit (PStr (''PER'' @ ''KG'')) = PStr ''1 kg''
   \<and> format_unit (PStr (''per'' @ ''Day'')) = PStr ''1 Day''
   \<and> \<not> py_startswith (py_lower ''CubicM'') ''per''
   \<and> format_unit (PStr ''CubicM'') = PStr ''1 CubicM''"
proof -
  have l: "py_lower ''PER'' = ''per''" "py_lower ''per'' = ''per''" by code_simp+
  have n: "\<not> py_startswith (py_lower ''CubicM'') ''per''" by code_simp
  have u: "py_isupper ''KG''" "\<not> py_isupper ''Day''" "py_lower ''KG'' = ''kg''" by code_simp+
  from format_unit_cases have
    a: "\<And>v. (\<forall>s. v \<noteq> PStr s) \<Longrightarrow> format_unit v = v"
    and b: "\<And>p r. py_lower p = ''per''
        \<Longrightarrow> format_unit (PStr (p @ r)) =
              PStr (''1 '' @ (if py_isupper r \<or> length r \<le> 2 then py_lower r else r))"
    and c: "\<And>s. \<not> py_startswith (py_lower s) ''per'' \<Longrightarrow> format_unit (PStr s) = PStr (''1 '' @ s)"
    by blast+
  have "format_unit PNone = PNone" by (rule a) simp
  moreover have "format_unit (PStr (''PER'' @ ''KG'')) = PStr ''1 kg''"
    using b[OF l(1), of "''KG''"] u by simp
  moreover have "format_unit (PStr (''per'' @ ''Day'')) = PStr ''1 Day''"
    using b[OF l(2), of "''Day''"] u by simp
  moreover have "format_unit (PStr ''CubicM'') = PStr ''1 CubicM''"
    using c[OF n] by simp
  ultimately show ?thesis using l n by simp
qed

subsection \<open>Frame of the catalog functions\<close>

lemma save_master_csv_json: "data_json (save_master_csv b t data s) = data_json s"
  by (simp add: save_master_csv_def Let_def)

text \<open>
  Claim C9. Deleting a master item leaves the main document as it is, whatever the
  catalog and the document are: the categories and every stored work item, with the
  names, prices and totals it holds, are the same before and after.
\<close>

theorem delete_master_item_keeps_document:
  "data_json (snd (delete_master_item b item_type item_id s)) = data_json s
   \<and> get_all_categories (snd (delete_master_item b item_type item_id s)) = get_all_categories s
   \<and> find_work_item_by_id (snd (delete_master_item b item_type item_id s)) work_item_id
       = find_work_item_by_id s work_item_id"
proof -
  have "data_json (snd (delete_master_item b item_type item_id s)) = data_json s"
    by (simp add: delete_master_item_def save_master_csv_json Let_def split: sum.splits)
  then show ?thesis
    by (simp add: get_all_categories_def find_work_item_by_id_def load_json_data_def)
qed

subsection \<open>A category id that matches nothing\<close>

lemma change_first_category_none:
  "\<forall>c \<in> set cs. cat_id c \<noteq> Some category_id \<Longrightarrow> change_first_category category_id f cs = None"
  by (induction cs) auto

lemma change_category_none:
  "\<forall>c \<in> set (get_all_categories s). cat_id c \<noteq> Some category_id
   \<Longrightarrow> change_category category_id f s = s"
  by (simp add: change_category_def get_all_categories_def Let_def change_first_category_none)

text \<open>
  Claim C10. When no category of the stored document has the given id,
  \<open>add_work_item_to_category\<close>, \<open>update_work_item\<close> and \<open>delete_work_item\<close> leave the
  data directory as it is: nothing is written (a missing \<open>data.json\<close> stays missing).
  None of the three has a raising branch.
\<close>

theorem unknown_category_no_write:
  assumes "\<forall>c \<in> set (get_all_categories s). cat_id c \<noteq> Some category_id"
  shows "add_work_item_to_category category_id item s = s
         \<and> update_work_item category_id item s = s
         \<and> delete_work_item category_id work_item_id s = s"
  using assms
  by (simp add: add_work_item_to_category_def update_work_item_def delete_work_item_def
        change_category_none)

theorem unknown_category_no_write_witness:
  "map cat_id (get_all_categories document_store) = [Some ''c1'']
   \<and> add_work_item_to_category ''c2'' example_item document_store = document_store
   \<and> update_work_item ''c2'' example_item document_store = document_store
   \<and> delete_work_item ''c2'' ''w1'' document_store = document_store"
proof -
  have ids: "map cat_id (get_all_categories document_store) = [Some ''c1'']"
    by code_simp
  have h: "\<forall>c \<in> set (get_all_categories document_store). cat_id c \<noteq> Some ''c2''"
    by code_simp
  from unknown_category_no_write[OF h] ids show ?thesis by simp
qed

section \<open>Master inventory: the new identifier\<close>




lemma set_parsed_ids:
  "set (parsed_ids all_items) =
     {k. \<exists>item \<in> set all_items.
           py_int (case dict_get item ''id'' of Some v \<Rightarrow> v | None \<Rightarrow> PInt 0) = Inr k}"
  by (auto simp: parsed_ids_def split: sum.splits)




section \<open>Master inventory: the round trip through the catalog file\<close>











end
